theory Spec2Isabelle
  imports Complex_Main "HOL-Library.Multiset" "HOL-Library.Sublist"
begin

section \<open>JavaScript numbers\<close>

text \<open>
  Every score in the frontend has the TypeScript type \<open>number\<close>: an IEEE double. The code
  only compares scores with integer literals, takes \<open>Math.min\<close>/\<open>Math.max\<close> of them and
  tests them for truthiness, so a number is modelled by its value: not-a-number, one of
  the two infinities, or a finite value (a rational; every finite double is one, and the
  two zeros, which compare equal and are both falsy, are the one value \<open>Fin 0\<close>).
\<close>

datatype jsnum = NaN | NegInf | Fin rat | PosInf

text \<open>\<open>a >= b\<close>: false as soon as one side is NaN.\<close>

fun js_ge :: "jsnum \<Rightarrow> jsnum \<Rightarrow> bool" where
  "js_ge NaN _ = False"
| "js_ge _ NaN = False"
| "js_ge PosInf _ = True"
| "js_ge _ NegInf = True"
| "js_ge (Fin a) (Fin b) = (b \<le> a)"
| "js_ge _ _ = False"

text \<open>\<open>a < b\<close> and \<open>a <= b\<close>, again false on NaN.\<close>

fun js_lt :: "jsnum \<Rightarrow> jsnum \<Rightarrow> bool" where
  "js_lt NaN _ = False"
| "js_lt _ NaN = False"
| "js_lt PosInf _ = False"
| "js_lt _ NegInf = False"
| "js_lt (Fin a) (Fin b) = (a < b)"
| "js_lt _ _ = True"

definition js_le :: "jsnum \<Rightarrow> jsnum \<Rightarrow> bool" where
  "js_le a b = js_ge b a"

text \<open>\<open>Math.max\<close> and \<open>Math.min\<close> of two numbers: NaN if either argument is NaN.\<close>

definition Math_max :: "jsnum \<Rightarrow> jsnum \<Rightarrow> jsnum" where
  "Math_max a b = (if a = NaN \<or> b = NaN then NaN else if js_ge a b then a else b)"

definition Math_min :: "jsnum \<Rightarrow> jsnum \<Rightarrow> jsnum" where
  "Math_min a b = (if a = NaN \<or> b = NaN then NaN else if js_ge a b then b else a)"

text \<open>Truthiness of a number: \<open>0\<close> and NaN are falsy.\<close>

definition truthy :: "jsnum \<Rightarrow> bool" where
  "truthy n = (n \<noteq> NaN \<and> n \<noteq> Fin 0)"

text \<open>
  \<open>a || b\<close> where \<open>a\<close> may be \<open>undefined\<close> (\<open>None\<close>) and \<open>b\<close> is a number or
  \<open>undefined\<close>; and \<open>a || d\<close> with a number literal \<open>d\<close> on the right.
\<close>

definition or_else :: "jsnum option \<Rightarrow> jsnum option \<Rightarrow> jsnum option" where
  "or_else a b = (case a of None \<Rightarrow> b | Some n \<Rightarrow> if truthy n then Some n else b)"

definition or_default :: "jsnum option \<Rightarrow> jsnum \<Rightarrow> jsnum" where
  "or_default a d = (case a of None \<Rightarrow> d | Some n \<Rightarrow> if truthy n then n else d)"

section \<open>Data transfer objects (lib/types)\<close>

text \<open>
  The records follow the TypeScript interfaces of \<open>lib/types/analysis.ts\<close>. An optional
  field (\<open>f?: T\<close>) is an \<open>option\<close>. Field names are the source's; \<open>skills_match\<close> occurs in
  two interfaces and is \<open>ai_skills_match\<close> in the first; the category literals carry
  the prefix \<open>cat_\<close>.
\<close>

record AIAnalysisScores =
  overall_score :: jsnum
  ats_compatibility :: jsnum
  keyword_optimization :: jsnum
  structure_quality :: jsnum
  content_relevance :: jsnum
  experience_alignment :: jsnum
  ai_skills_match :: jsnum
  education_relevance :: jsnum

datatype priority = low | medium | high | critical

datatype category = cat_skills | cat_experience | cat_education | cat_formatting | cat_keywords | cat_content

record MatchAnalysis =
  skills_match :: jsnum
  experience_match :: jsnum
  education_match :: jsnum
  keyword_coverage :: jsnum
  missing_keywords :: "string list"
  matched_keywords :: "string list"
  improvement_priority :: priority

record ImprovementSuggestion =
  category :: category
  priority :: priority
  suggestion :: string
  impact_score :: jsnum
  specific_changes :: "string list option"

text \<open>
  \<open>recommendations\<close> is declared as a plain array, but the card reads it with \<open>?.\<close>, so
  the model lets it be absent.
\<close>

record ResumeJobMatchResult =
  match_score :: jsnum
  detailed_analysis :: MatchAnalysis
  recommendations :: "ImprovementSuggestion list option"
  ai_insights :: string
  confidence_score :: jsnum

text \<open>
  Of \<open>ProcessedResume\<close> (\<open>lib/types/resume.ts\<close>) and \<open>ProcessedJob\<close> (\<open>lib/types/job.ts\<close>)
  the model keeps the identifier and the fields the modelled code reads.
\<close>

record ProcessedResume =
  resume_id :: string
  ai_analysis_scores :: "AIAnalysisScores option"
  ats_compatibility_score :: "jsnum option"

record ProcessedJob =
  job_id :: string
  job_title :: string
  processed_at :: string

section \<open>Score presentation: the resume analysis component\<close>

text \<open>\<open>getScoreColor\<close> and \<open>getScoreText\<close> of \<open>resume-analysis.tsx\<close>.\<close>

definition getScoreColor :: "jsnum \<Rightarrow> string" where
  "getScoreColor v =
     (if js_ge v (Fin 80) then ''text-green-500''
      else if js_ge v (Fin 60) then ''text-yellow-500''
      else ''text-red-500'')"

definition getScoreText :: "jsnum \<Rightarrow> string" where
  "getScoreText v =
     (if js_ge v (Fin 90) then ''Excellent''
      else if js_ge v (Fin 80) then ''Very Good''
      else if js_ge v (Fin 70) then ''Good''
      else if js_ge v (Fin 60) then ''Fair''
      else ''Needs Improvement'')"

text \<open>
  \<open>const aiScores = analysisData?.ai_analysis_scores\<close> and
  \<open>const overallScore = aiScores?.overall_score || score || 0\<close>, where \<open>analysisData\<close> is the
  component's resume (or null) and \<open>score\<close> the optional legacy prop.
\<close>

definition aiScores :: "ProcessedResume option \<Rightarrow> AIAnalysisScores option" where
  "aiScores analysisData = (case analysisData of None \<Rightarrow> None | Some r \<Rightarrow> ai_analysis_scores r)"

definition overallScore :: "ProcessedResume option \<Rightarrow> jsnum option \<Rightarrow> jsnum" where
  "overallScore analysisData score =
     or_default (or_else (map_option overall_score (aiScores analysisData)) score) (Fin 0)"

text \<open>
  The legacy part of that expression, \<open>score || 0\<close>, spelled out: the prop when it is
  present and neither 0 nor NaN, and 0 otherwise.
\<close>

definition legacy_score :: "jsnum option \<Rightarrow> jsnum" where
  "legacy_score score =
     (case score of None \<Rightarrow> Fin 0 | Some s \<Rightarrow> if s = Fin 0 \<or> s = NaN then Fin 0 else s)"

text \<open>
  The overall score bar of the detail dialog: its colour class is the inline conditional
  on \<open>overallScore\<close>, its width is \<open>Math.min(100, Math.max(0, overallScore))\<close> percent.
\<close>

definition scoreBarColor :: "jsnum \<Rightarrow> string" where
  "scoreBarColor v =
     (if js_ge v (Fin 80) then ''bg-green-500''
      else if js_ge v (Fin 60) then ''bg-yellow-500''
      else ''bg-red-500'')"

definition scoreBarWidth :: "jsnum \<Rightarrow> jsnum" where
  "scoreBarWidth v = Math_min (Fin 100) (Math_max (Fin 0) v)"

section \<open>Score presentation: the job match card\<close>

text \<open>\<open>getMatchColor\<close>, \<open>getMatchBadgeColor\<close> and \<open>getMatchText\<close> of \<open>job-match-card.tsx\<close>.\<close>

definition getMatchColor :: "jsnum \<Rightarrow> string" where
  "getMatchColor score =
     (if js_ge score (Fin 80) then ''text-green-500''
      else if js_ge score (Fin 60) then ''text-yellow-500''
      else ''text-red-500'')"

definition getMatchBadgeColor :: "jsnum \<Rightarrow> string" where
  "getMatchBadgeColor score =
     (if js_ge score (Fin 80) then ''bg-green-500''
      else if js_ge score (Fin 60) then ''bg-yellow-500''
      else ''bg-red-500'')"

definition getMatchText :: "jsnum \<Rightarrow> string" where
  "getMatchText score =
     (if js_ge score (Fin 90) then ''Excellent Match''
      else if js_ge score (Fin 80) then ''Very Good Match''
      else if js_ge score (Fin 70) then ''Good Match''
      else if js_ge score (Fin 60) then ''Fair Match''
      else ''Needs Improvement'')"

text \<open>
  \<open>prioritySuggestions\<close>: the recommendations whose priority is \<open>critical\<close> or \<open>high\<close>; the
  \<open>|| []\<close> applies only when \<open>recommendations\<close> is absent, an array being truthy.
\<close>

definition prioritySuggestions :: "ResumeJobMatchResult \<Rightarrow> ImprovementSuggestion list" where
  "prioritySuggestions matchResult =
     (case recommendations matchResult of
        None \<Rightarrow> []
      | Some rs \<Rightarrow> filter (\<lambda>r. priority r = critical \<or> priority r = high) rs)"

text \<open>
  The badge \<open>N Priority Issues\<close> is rendered only when the filtered list is not empty; the
  header of the card shows the badge colour, the score and the label, all from
  \<open>match_score\<close>.
\<close>

definition priorityBadge :: "ResumeJobMatchResult \<Rightarrow> nat option" where
  "priorityBadge matchResult =
     (if length (prioritySuggestions matchResult) > 0
      then Some (length (prioritySuggestions matchResult)) else None)"

definition matchHeader :: "ResumeJobMatchResult \<Rightarrow> string \<times> jsnum \<times> string" where
  "matchHeader matchResult =
     (getMatchBadgeColor (match_score matchResult), match_score matchResult,
      getMatchText (match_score matchResult))"

section \<open>Promises\<close>

text \<open>
  A promise is modelled by what it settles to: \<open>Inl\<close> the error it rejects with, \<open>Inr\<close> the
  value it resolves to. An \<open>Error\<close> carries the message the code gave it; \<open>TypeError\<close> is the
  error the engine throws when a property of \<open>undefined\<close> or \<open>null\<close> is read (its message
  is the engine's and is not modelled).
\<close>

datatype js_error = Error string | TypeError

type_synonym 'a promise = "js_error + 'a"

text \<open>\<open>p.catch(() => null)\<close> and \<open>p.catch(() => [])\<close>.\<close>

definition or_null :: "'a promise \<Rightarrow> 'a option promise" where
  "or_null p = (case p of Inl _ \<Rightarrow> Inr None | Inr v \<Rightarrow> Inr (Some v))"

definition or_empty :: "'a list promise \<Rightarrow> 'a list promise" where
  "or_empty p = (case p of Inl _ \<Rightarrow> Inr [] | Inr v \<Rightarrow> Inr v)"

text \<open>
  \<open>Promise.all\<close> resolves to the values in the order of its arguments when all of them
  resolve, and rejects as soon as one of them rejects, with that rejection. Which
  argument rejects first depends on when the arguments settle, so the order of settling
  is a parameter: \<open>order\<close> lists positions of the arguments in the order in which they
  settle (a position it does not list settles after the listed ones, in list order).
\<close>

definition rejection :: "'a promise \<Rightarrow> js_error option" where
  "rejection p = (case p of Inl e \<Rightarrow> Some e | Inr _ \<Rightarrow> None)"

definition resolution :: "'a promise \<Rightarrow> 'a option" where
  "resolution p = (case p of Inl _ \<Rightarrow> None | Inr v \<Rightarrow> Some v)"

definition first_rejection :: "nat list \<Rightarrow> js_error option list \<Rightarrow> js_error option" where
  "first_rejection order rs =
     (case List.map_filter (\<lambda>i. if i < length rs then rs ! i else None)
             (order @ [0..<length rs]) of
        [] \<Rightarrow> None
      | e # _ \<Rightarrow> Some e)"

definition Promise_all :: "nat list \<Rightarrow> 'a promise list \<Rightarrow> 'a list promise" where
  "Promise_all order ps =
     (case first_rejection order (map rejection ps) of
        Some e \<Rightarrow> Inl e
      | None \<Rightarrow> Inr (List.map_filter resolution ps))"

text \<open>The same for three arguments of different types.\<close>

definition Promise_all3 ::
  "nat list \<Rightarrow> 'a promise \<Rightarrow> 'b promise \<Rightarrow> 'c promise \<Rightarrow> ('a \<times> 'b \<times> 'c) promise" where
  "Promise_all3 order p q r =
     (case first_rejection order [rejection p, rejection q, rejection r] of
        Some e \<Rightarrow> Inl e
      | None \<Rightarrow>
          (case p of
             Inl e \<Rightarrow> Inl e
           | Inr a \<Rightarrow>
               (case q of
                  Inl e \<Rightarrow> Inl e
                | Inr b \<Rightarrow> (case r of Inl e \<Rightarrow> Inl e | Inr c \<Rightarrow> Inr (a, b, c)))))"

section \<open>The dashboard aggregation (fit-score dashboard component)\<close>

text \<open>
  The request of \<open>analyzeResumeJobMatch\<close>; its fields \<open>resume_id\<close> and \<open>job_id\<close> carry the
  prefix \<open>request_\<close> here.
\<close>

record MatchAnalysisRequest =
  request_resume_id :: string
  request_job_id :: string
  include_recommendations :: "bool option"
  include_ai_insights :: "bool option"

text \<open>
  What the four imported client functions settle to when the component calls them. The
  dashboard and bulk payloads are only stored, so their types are parameters. The match
  analysis is called once per job; \<open>match_outcome b i request\<close> is the outcome of the
  \<open>i\<close>-th of these calls (two calls with the same request need not agree). The two
  orders are those in which the arguments of the first and of the second \<open>Promise.all\<close>
  settle.
\<close>

record ('d, 'b) backend =
  dashboard_outcome :: "string \<Rightarrow> 'd promise"
  jobs_outcome :: "string \<Rightarrow> ProcessedJob list promise"
  bulk_outcome :: "string \<Rightarrow> 'b promise"
  match_outcome :: "nat \<Rightarrow> MatchAnalysisRequest \<Rightarrow> ResumeJobMatchResult promise"
  initial_order :: "nat list"
  match_order :: "nat list"

text \<open>
  \<open>jobMatches\<close> and \<open>matchMap\<close> are plain objects created by \<open>{}\<close> and used as maps from job
  identifiers to match results. Such an object has its own properties and a prototype:
  \<open>Object.prototype\<close> at first (\<open>None\<close> here), or a match result once one has been
  assigned to the key \<open>__proto__\<close> (the prototype of a match result, an object parsed from
  JSON, being \<open>Object.prototype\<close>).
\<close>

record match_object =
  own :: "string \<rightharpoonup> ResumeJobMatchResult"
  prototype :: "ResumeJobMatchResult option"

definition empty_object :: match_object where
  "empty_object = \<lparr>own = Map.empty, prototype = None\<rparr>"

text \<open>The names of the members of \<open>Object.prototype\<close> in a standard environment.\<close>

definition Object_prototype_names :: "string list" where
  "Object_prototype_names =
     [''constructor'', ''__defineGetter__'', ''__defineSetter__'', ''hasOwnProperty'',
      ''__lookupGetter__'', ''__lookupSetter__'', ''isPrototypeOf'', ''propertyIsEnumerable'',
      ''toString'', ''valueOf'', ''__proto__'', ''toLocaleString'']"

text \<open>
  What reading \<open>obj[key]\<close> can yield: \<open>undefined\<close>, a match result, a field of the match
  result that is the prototype, \<open>Object.prototype\<close> itself, or one of its member functions.
\<close>

datatype property_value =
  No_property
  | Match ResumeJobMatchResult
  | Number_field jsnum
  | String_field string
  | Analysis_field MatchAnalysis
  | List_field "ImprovementSuggestion list"
  | Object_prototype
  | Builtin string

definition match_field :: "ResumeJobMatchResult \<Rightarrow> string \<Rightarrow> property_value option" where
  "match_field m key =
     (if key = ''match_score'' then Some (Number_field (match_score m))
      else if key = ''detailed_analysis'' then Some (Analysis_field (detailed_analysis m))
      else if key = ''recommendations'' then map_option List_field (recommendations m)
      else if key = ''ai_insights'' then Some (String_field (ai_insights m))
      else if key = ''confidence_score'' then Some (Number_field (confidence_score m))
      else None)"

text \<open>
  A key found on \<open>Object.prototype\<close>, the end of the chain: \<open>__proto__\<close> is an accessor that
  returns the prototype of the object read, the other members are functions.
\<close>

definition inherited :: "ResumeJobMatchResult option \<Rightarrow> string \<Rightarrow> property_value" where
  "inherited proto key =
     (if key = ''__proto__'' then (case proto of None \<Rightarrow> Object_prototype | Some m \<Rightarrow> Match m)
      else if key \<in> set Object_prototype_names then Builtin key
      else No_property)"

text \<open>\<open>obj[key]\<close>: an own property, else the prototype chain.\<close>

definition lookup :: "match_object \<Rightarrow> string \<Rightarrow> property_value" where
  "lookup obj key =
     (case own obj key of
        Some m \<Rightarrow> Match m
      | None \<Rightarrow>
          (case prototype obj of
             None \<Rightarrow> inherited None key
           | Some m \<Rightarrow>
               (case match_field m key of Some v \<Rightarrow> v | None \<Rightarrow> inherited (Some m) key)))"

text \<open>
  \<open>obj[key] = v\<close> for a match result \<open>v\<close>: the key \<open>__proto__\<close>, unless it is an own
  property, reaches the setter of \<open>Object.prototype\<close>, which makes \<open>v\<close> the prototype; any
  other key becomes or stays an own property (every inherited data property being
  writable).
\<close>

definition assign :: "match_object \<Rightarrow> string \<Rightarrow> ResumeJobMatchResult \<Rightarrow> match_object" where
  "assign obj key v =
     (if key = ''__proto__'' \<and> own obj key = None then obj\<lparr>prototype := Some v\<rparr>
      else obj\<lparr>own := (own obj)(key \<mapsto> v)\<rparr>)"

text \<open>Truthiness of what was read, as tested by \<open>if (!matchResult)\<close>.\<close>

definition property_truthy :: "property_value \<Rightarrow> bool" where
  "property_truthy v =
     (case v of
        No_property \<Rightarrow> False
      | Number_field n \<Rightarrow> truthy n
      | String_field x \<Rightarrow> x \<noteq> []
      | _ \<Rightarrow> True)"

text \<open>
  The match results an object yields: \<open>match_results obj key\<close> is the match result that
  \<open>obj[key]\<close> reads, if it reads one.
\<close>

definition match_results :: "match_object \<Rightarrow> (string \<rightharpoonup> ResumeJobMatchResult)" where
  "match_results obj key = (case lookup obj key of Match m \<Rightarrow> Some m | _ \<Rightarrow> None)"

text \<open>The component's state (its \<open>useState\<close> cells, the active tab apart).\<close>

record ('d, 'b) dashboard_state =
  dashboardData :: "'d option"
  bulkAnalysis :: "'b option"
  recentJobs :: "ProcessedJob list"
  jobMatches :: match_object
  loading :: bool
  error :: "string option"

text \<open>The object \<open>{ jobId: job.job_id, match }\<close> a per-job promise resolves to.\<close>

record settled =
  jobId :: string
  match :: ResumeJobMatchResult

text \<open>
  The first \<open>Promise.all\<close>: the three fetches, each with its own \<open>catch\<close>.
\<close>

definition initialFetch ::
  "('d, 'b) backend \<Rightarrow> string \<Rightarrow> ('d option \<times> ProcessedJob list \<times> 'b option) promise" where
  "initialFetch b resumeId =
     Promise_all3 (initial_order b) (or_null (dashboard_outcome b resumeId))
       (or_empty (jobs_outcome b resumeId))
       (or_null (bulk_outcome b resumeId))"

text \<open>
  The body of \<open>jobs.slice(0, 6).map(async (job) => ...)\<close> for the job at position \<open>i\<close>: the
  request it issues, and the promise it returns, which resolves to \<open>null\<close> when the
  analysis fails and never rejects.
\<close>

definition matchRequest :: "string \<Rightarrow> ProcessedJob \<Rightarrow> MatchAnalysisRequest" where
  "matchRequest resumeId job =
     \<lparr>request_resume_id = resumeId, request_job_id = job_id job,
      include_recommendations = Some True, include_ai_insights = Some True\<rparr>"

definition matchPromise ::
  "('d, 'b) backend \<Rightarrow> string \<Rightarrow> nat \<times> ProcessedJob
     \<Rightarrow> MatchAnalysisRequest \<times> settled option promise" where
  "matchPromise b resumeId ij =
     (let request = matchRequest resumeId (snd ij) in
      (request,
       case match_outcome b (fst ij) request of
         Inr m \<Rightarrow> Inr (Some \<lparr>jobId = job_id (snd ij), match = m\<rparr>)
       | Inl e \<Rightarrow> Inr None))"

text \<open>
  The \<open>forEach\<close> that fills \<open>matchMap\<close>, starting from \<open>{}\<close>: for a settled result that is
  not null, \<open>matchMap[result.jobId] = result.match\<close>.
\<close>

definition matchMap_step :: "match_object \<Rightarrow> settled option \<Rightarrow> match_object" where
  "matchMap_step m result =
     (case result of None \<Rightarrow> m | Some r \<Rightarrow> assign m (jobId r) (match r))"

definition matchMap :: "settled option list \<Rightarrow> match_object" where
  "matchMap matchResults = foldl matchMap_step empty_object matchResults"

text \<open>
  The \<open>try\<close> block of \<open>loadDashboardData\<close>, run on the state \<open>st\<close>. It returns the error
  thrown inside the block if any, the state at that point, and the match-analysis
  requests issued, in order.
\<close>

definition tryBlock ::
  "('d, 'b) backend \<Rightarrow> string \<Rightarrow> ('d, 'b) dashboard_state
     \<Rightarrow> js_error option \<times> ('d, 'b) dashboard_state \<times> MatchAnalysisRequest list" where
  "tryBlock b resumeId st =
     (case initialFetch b resumeId of
        Inl e \<Rightarrow> (Some e, st, [])
      | Inr (dashboard, jobs, bulk) \<Rightarrow>
          (let st2 = st\<lparr>dashboardData := dashboard, recentJobs := take 6 jobs,
                        bulkAnalysis := bulk\<rparr>
           in if length jobs > 0 then
                (let calls = map (matchPromise b resumeId)
                               (zip [0..<length (take 6 jobs)] (take 6 jobs))
                 in case Promise_all (match_order b) (map snd calls) of
                      Inl e \<Rightarrow> (Some e, st2, map fst calls)
                    | Inr matchResults \<Rightarrow>
                        (None, st2\<lparr>jobMatches := matchMap matchResults\<rparr>, map fst calls))
              else (None, st2, [])))"

text \<open>
  \<open>loadDashboardData\<close>: \<open>setLoading(true)\<close>, the \<open>try\<close> block, the \<open>catch\<close> that sets the
  page-level error, and the \<open>finally\<close> that clears \<open>loading\<close>.
\<close>

definition loadDashboardData ::
  "('d, 'b) backend \<Rightarrow> string \<Rightarrow> ('d, 'b) dashboard_state
     \<Rightarrow> ('d, 'b) dashboard_state \<times> MatchAnalysisRequest list" where
  "loadDashboardData b resumeId st =
     (case tryBlock b resumeId (st\<lparr>loading := True\<rparr>) of
        (None, st', issued) \<Rightarrow> (st'\<lparr>loading := False\<rparr>, issued)
      | (Some err, st', issued) \<Rightarrow>
          (st'\<lparr>error := Some ''Failed to load dashboard data'', loading := False\<rparr>, issued))"

text \<open>
  The cards of the matches tab: for each kept job, \<open>recentJobs.map\<close> reads
  \<open>jobMatches[job.job_id]\<close> and renders nothing when that is falsy, and a card for the job
  with what was read as its match result otherwise.
\<close>

definition matchCards ::
  "('d, 'b) dashboard_state \<Rightarrow> (ProcessedJob \<times> property_value) list" where
  "matchCards st =
     List.map_filter
       (\<lambda>job. let matchResult = lookup (jobMatches st) (job_id job)
              in if \<not> property_truthy matchResult then None else Some (job, matchResult))
       (recentJobs st)"

text \<open>The job list the aggregation works on: the fetched one, or the empty list.\<close>

definition fetchedJobs :: "('d, 'b) backend \<Rightarrow> string \<Rightarrow> ProcessedJob list" where
  "fetchedJobs b resumeId = (case jobs_outcome b resumeId of Inl _ \<Rightarrow> [] | Inr jobs \<Rightarrow> jobs)"

text \<open>The settled results that are not null.\<close>

definition successful :: "settled option list \<Rightarrow> settled list" where
  "successful matchResults = List.map_filter (\<lambda>r. r) matchResults"

text \<open>
  Notions used in the proofs about the aggregation: the key and value a settled result
  contributes to the map, and what the promise of the job at position \<open>i\<close> resolves to.
\<close>

definition entries :: "settled option list \<Rightarrow> (string \<times> ResumeJobMatchResult) list" where
  "entries matchResults = map (\<lambda>s. (jobId s, match s)) (successful matchResults)"

definition settle :: "('d, 'b) backend \<Rightarrow> string \<Rightarrow> nat \<times> ProcessedJob \<Rightarrow> settled option" where
  "settle b resumeId ij =
     (case match_outcome b (fst ij) (matchRequest resumeId (snd ij)) of
        Inr m \<Rightarrow> Some \<lparr>jobId = job_id (snd ij), match = m\<rparr>
      | Inl e \<Rightarrow> None)"

section \<open>The score histogram\<close>

text \<open>
  The histogram \<open>jobs_by_match_score\<close> of \<open>BulkAnalysisResult.analysis_summary\<close>
  (\<open>lib/types/dashboard.ts\<close>): one count per bucket.
\<close>

record jobs_by_match_score =
  excellent :: nat
  good :: nat
  fair :: nat
  poor :: nat

datatype bucket = Excellent | Good | Fair | Poor

text \<open>
  Modelled from the spec: the classification of a score into a bucket and the counting of
  match results per bucket. The frontend sources only declare the histogram's type and
  display its counts; the code that fills it is not among them. The specification puts a
  score into \<open>excellent\<close> for [90,100], \<open>good\<close> for [75,90), \<open>fair\<close> for [60,75) and \<open>poor\<close>
  below 60, and counts the match results of each bucket.
\<close>

definition in_bucket :: "bucket \<Rightarrow> jsnum \<Rightarrow> bool" where
  "in_bucket b s =
     (case b of
        Excellent \<Rightarrow> js_ge s (Fin 90) \<and> js_le s (Fin 100)
      | Good \<Rightarrow> js_ge s (Fin 75) \<and> js_lt s (Fin 90)
      | Fair \<Rightarrow> js_ge s (Fin 60) \<and> js_lt s (Fin 75)
      | Poor \<Rightarrow> js_lt s (Fin 60))"

text \<open>
  Modelled from the spec: the count of a bucket is the number of match results whose score
  falls into it (the counting code is not among the frontend sources).
\<close>

definition bucket_count :: "bucket \<Rightarrow> ResumeJobMatchResult list \<Rightarrow> nat" where
  "bucket_count b results = length (filter (\<lambda>m. in_bucket b (match_score m)) results)"

text \<open>
  Modelled from the spec: the histogram of a list of match results holds the four counts
  (the code that fills \<open>jobs_by_match_score\<close> is not among the frontend sources).
\<close>

definition bucket_histogram :: "ResumeJobMatchResult list \<Rightarrow> jobs_by_match_score" where
  "bucket_histogram results =
     \<lparr>excellent = bucket_count Excellent results, good = bucket_count Good results,
      fair = bucket_count Fair results, poor = bucket_count Poor results\<rparr>"

section \<open>The API client (lib/api)\<close>

subsection \<open>Values, requests and responses\<close>





















subsection \<open>lib/api/job.ts\<close>













subsection \<open>lib/api/resume.ts\<close>










text \<open>
  \<open>getBulkAnalysis\<close>: the optional request (\<open>BulkMatchRequest\<close>, its \<open>resume_id\<close> being
  \<open>bulk_resume_id\<close> here) contributes a query parameter for each of its truthy fields.
\<close>

record BulkMatchRequest =
  bulk_resume_id :: string
  job_ids :: "string list option"
  max_jobs :: "jsnum option"
  min_match_score :: "jsnum option"
  include_detailed_analysis :: "bool option"







subsection \<open>The contract of a client function\<close>






section \<open>Sample data\<close>

text \<open>
  The component's initial state (the arguments of its \<open>useState\<close> calls), and concrete
  jobs, match results and backends on which the theorems below are instantiated.
\<close>

definition initialState :: "(unit, unit) dashboard_state" where
  "initialState =
     \<lparr>dashboardData = None, bulkAnalysis = None, recentJobs = [], jobMatches = empty_object,
      loading = True, error = None\<rparr>"

definition sample_job :: "string \<Rightarrow> string \<Rightarrow> ProcessedJob" where
  "sample_job jid title = \<lparr>job_id = jid, job_title = title, processed_at = ''2025-01-01''\<rparr>"

definition sample_suggestion :: "priority \<Rightarrow> ImprovementSuggestion" where
  "sample_suggestion p =
     \<lparr>category = cat_skills, priority = p, suggestion = ''Add a skills section'',
      impact_score = Fin 70, specific_changes = None\<rparr>"

definition sample_match :: "rat \<Rightarrow> ResumeJobMatchResult" where
  "sample_match q =
     \<lparr>match_score = Fin q,
      detailed_analysis =
        \<lparr>skills_match = Fin q, experience_match = Fin q, education_match = Fin q,
         keyword_coverage = Fin q, missing_keywords = [], matched_keywords = [],
         improvement_priority = medium\<rparr>,
      recommendations = Some [sample_suggestion high, sample_suggestion medium],
      ai_insights = [], confidence_score = Fin 90\<rparr>"

definition sample_scores :: "jsnum \<Rightarrow> AIAnalysisScores" where
  "sample_scores overall =
     \<lparr>overall_score = overall, ats_compatibility = Fin 70, keyword_optimization = Fin 65,
      structure_quality = Fin 80, content_relevance = Fin 75, experience_alignment = Fin 60,
      ai_skills_match = Fin 85, education_relevance = Fin 90\<rparr>"

definition sample_resume :: "AIAnalysisScores option \<Rightarrow> ProcessedResume" where
  "sample_resume scores =
     \<lparr>resume_id = ''r1'', ai_analysis_scores = scores, ats_compatibility_score = Some (Fin 70)\<rparr>"

text \<open>
  The scenario of the specification: two jobs, the analysis of \<open>j1\<close> succeeds and that of
  \<open>j2\<close> fails with status 500.
\<close>

definition scenario_backend :: "(unit, unit) backend" where
  "scenario_backend =
     \<lparr>dashboard_outcome = (\<lambda>_. Inr ()),
      jobs_outcome = (\<lambda>_. Inr [sample_job ''j1'' ''Engineer'', sample_job ''j2'' ''Analyst'']),
      bulk_outcome = (\<lambda>_. Inl (Error ''Bulk analysis failed: 503 - unavailable'')),
      match_outcome = (\<lambda>i request.
         if request_job_id request = ''j1'' then Inr (sample_match 95)
         else Inl (Error ''Match analysis failed: 500 - Internal Server Error'')),
      initial_order = [0, 1, 2], match_order = [1, 0, 2]\<rparr>"

text \<open>
  A job list in which the identifier \<open>j1\<close> occurs twice: the first two analyses succeed
  with different results, the third fails.
\<close>

definition repeated_backend :: "(unit, unit) backend" where
  "repeated_backend =
     \<lparr>dashboard_outcome = (\<lambda>_. Inr ()),
      jobs_outcome = (\<lambda>_. Inr [sample_job ''j1'' ''Engineer'', sample_job ''j1'' ''Engineer'',
                                sample_job ''j2'' ''Analyst'']),
      bulk_outcome = (\<lambda>_. Inr ()),
      match_outcome = (\<lambda>i request.
         if i = 0 then Inr (sample_match 95)
         else if i = 1 then Inr (sample_match 40)
         else Inl (Error ''Match analysis failed: 500 - Internal Server Error'')),
      initial_order = [0, 1, 2], match_order = [1, 0, 2]\<rparr>"

text \<open>
  A job list with the identifiers \<open>__proto__\<close> and \<open>constructor\<close>: the analysis of the first
  succeeds, that of the second fails.
\<close>

definition inherited_backend :: "(unit, unit) backend" where
  "inherited_backend =
     \<lparr>dashboard_outcome = (\<lambda>_. Inr ()),
      jobs_outcome = (\<lambda>_. Inr [sample_job ''__proto__'' ''Engineer'',
                                sample_job ''constructor'' ''Analyst'']),
      bulk_outcome = (\<lambda>_. Inr ()),
      match_outcome = (\<lambda>i request.
         if i = 0 then Inr (sample_match 95)
         else Inl (Error ''Match analysis failed: 500 - Internal Server Error'')),
      initial_order = [0, 1, 2], match_order = [0, 1]\<rparr>"

text \<open>Three settled results, the second one null.\<close>

definition sample_settled :: "settled option list" where
  "sample_settled =
     [Some \<lparr>jobId = ''j1'', match = sample_match 95\<rparr>, None,
      Some \<lparr>jobId = ''j2'', match = sample_match 40\<rparr>]"


section \<open>Properties of the score presentation\<close>

lemma js_ge_Fin [simp]:
  "js_ge v (Fin b) = (case v of Fin a \<Rightarrow> b \<le> a | PosInf \<Rightarrow> True | _ \<Rightarrow> False)"
  by (cases v) simp_all

lemma js_ge_Fin_left [simp]:
  "js_ge (Fin a) v = (case v of Fin b \<Rightarrow> b \<le> a | NegInf \<Rightarrow> True | _ \<Rightarrow> False)"
  by (cases v) simp_all

lemma js_lt_Fin [simp]:
  "js_lt v (Fin b) = (case v of Fin a \<Rightarrow> a < b | NegInf \<Rightarrow> True | _ \<Rightarrow> False)"
  by (cases v) simp_all

lemma overallScore_not_NaN: "overallScore analysisData score \<noteq> NaN"
  by (auto simp: overallScore_def or_default_def or_else_def truthy_def split: option.splits)

lemma scoreBarWidth_in_range:
  "s \<noteq> NaN \<Longrightarrow> js_ge (scoreBarWidth s) (Fin 0) \<and> js_le (scoreBarWidth s) (Fin 100)"
  by (cases s) (auto simp: scoreBarWidth_def Math_max_def Math_min_def js_le_def)

text \<open>
  C5 (as amended). Both components band a score at the same thresholds. The colour is
  green from 80, yellow from 60 and red below (and for NaN); the resume analysis labels
  a score \<open>Excellent\<close> from 90, \<open>Very Good\<close> from 80, \<open>Good\<close> from 70, \<open>Fair\<close> from 60 and
  \<open>Needs Improvement\<close> otherwise. The job match card uses the same text colour, the same
  colour as a background class for its badge (as the score bar does), and the same labels
  with \<open>Match\<close> appended to the four upper ones. The mapping is total, and exact at
  59/60, 69/70, 79/80 and 89/90.
\<close>

theorem score_bands:
  "getScoreColor (Fin q) =
     (if 80 \<le> q then ''text-green-500'' else if 60 \<le> q then ''text-yellow-500''
      else ''text-red-500'')
   \<and> getScoreText (Fin q) =
     (if 90 \<le> q then ''Excellent'' else if 80 \<le> q then ''Very Good''
      else if 70 \<le> q then ''Good'' else if 60 \<le> q then ''Fair'' else ''Needs Improvement'')
   \<and> getScoreColor PosInf = ''text-green-500'' \<and> getScoreText PosInf = ''Excellent''
   \<and> getScoreColor NegInf = ''text-red-500'' \<and> getScoreText NegInf = ''Needs Improvement''
   \<and> getScoreColor NaN = ''text-red-500'' \<and> getScoreText NaN = ''Needs Improvement''
   \<and> getMatchColor s = getScoreColor s
   \<and> getMatchBadgeColor s = ''bg-'' @ drop 5 (getScoreColor s)
   \<and> scoreBarColor s = getMatchBadgeColor s
   \<and> getMatchText s =
       (if getScoreText s = ''Needs Improvement'' then ''Needs Improvement''
        else getScoreText s @ '' Match'')
   \<and> map getScoreColor [Fin 59, Fin 60, Fin 79, Fin 80] =
       [''text-red-500'', ''text-yellow-500'', ''text-yellow-500'', ''text-green-500'']
   \<and> map getScoreText [Fin 59, Fin 60, Fin 69, Fin 70, Fin 79, Fin 80, Fin 89, Fin 90] =
       [''Needs Improvement'', ''Fair'', ''Fair'', ''Good'', ''Good'', ''Very Good'', ''Very Good'',
        ''Excellent'']"
  by (cases s) (simp_all add: getScoreColor_def getScoreText_def getMatchColor_def
      getMatchBadgeColor_def scoreBarColor_def getMatchText_def)

text \<open>
  C5 as stated fails: for the score 95 the job match card shows the label
  \<open>Excellent Match\<close>, not \<open>Excellent\<close>, so the label is not the same in every component.
\<close>

theorem match_label_counterexample:
  "getMatchText (Fin 95) = ''Excellent Match'' \<and> getScoreText (Fin 95) = ''Excellent''
   \<and> getMatchText (Fin 95) \<noteq> getScoreText (Fin 95)"
  by (simp add: getMatchText_def getScoreText_def)

text \<open>
  C7. The width of the overall score bar, written \<open>Math.min(100, Math.max(0, score))\<close> in
  the source, equals \<open>max(0, min(100, score))\<close> for every number; for every number but NaN
  it lies between 0 and 100, and for a finite score it is the score clamped to that
  interval. The score the bar is drawn for is never NaN (NaN being falsy, the fallback
  replaces it), so the rendered width always lies in [0,100].
\<close>

theorem score_bar_width_clamped:
  "scoreBarWidth s = Math_max (Fin 0) (Math_min (Fin 100) s)
   \<and> (s \<noteq> NaN \<longrightarrow> js_ge (scoreBarWidth s) (Fin 0) \<and> js_le (scoreBarWidth s) (Fin 100))
   \<and> scoreBarWidth (Fin q) = Fin (max 0 (min 100 q))
   \<and> js_ge (scoreBarWidth (overallScore analysisData score)) (Fin 0)
   \<and> js_le (scoreBarWidth (overallScore analysisData score)) (Fin 100)"
proof -
  have "scoreBarWidth s = Math_max (Fin 0) (Math_min (Fin 100) s)"
    by (cases s) (auto simp: scoreBarWidth_def Math_max_def Math_min_def)
  moreover have "scoreBarWidth (Fin q) = Fin (max 0 (min 100 q))"
    by (auto simp: scoreBarWidth_def Math_max_def Math_min_def)
  ultimately show ?thesis
    using scoreBarWidth_in_range [of s]
      scoreBarWidth_in_range [OF overallScore_not_NaN, of analysisData score]
    by blast
qed

theorem score_bar_width_clamped_witness:
  "scoreBarWidth (Fin 150) = Fin 100 \<and> scoreBarWidth (Fin (-20)) = Fin 0
   \<and> scoreBarWidth (Fin (85 / 2)) = Fin (85 / 2)
   \<and> js_ge (scoreBarWidth (Fin 150)) (Fin 0) \<and> js_le (scoreBarWidth (Fin 150)) (Fin 100)"
proof -
  have h: "Fin 150 \<noteq> NaN" by simp
  from score_bar_width_clamped [of "Fin 150" 150] h
    score_bar_width_clamped [of "Fin (-20)" "-20"] score_bar_width_clamped [of "Fin (85 / 2)" "85 / 2"]
  show ?thesis by (simp add: Math_max_def Math_min_def js_le_def)
qed

text \<open>
  C10. The displayed overall score is the AI score when that is present and neither 0 nor
  NaN; when it is absent, 0 (or NaN) the display falls back to the legacy prop, and to 0
  when that is absent or 0 as well. Whenever the displayed value differs from the legacy
  fallback it is a present, nonzero AI score. A resume whose AI overall score is exactly
  0 is displayed like a resume with no AI scores, and like no resume at all.
\<close>

theorem overall_score_fallback:
  "(aiScores analysisData = Some a \<and> overall_score a \<noteq> Fin 0 \<and> overall_score a \<noteq> NaN
      \<longrightarrow> overallScore analysisData score = overall_score a)
   \<and> (aiScores analysisData = None
        \<or> (\<exists>a. aiScores analysisData = Some a \<and> (overall_score a = Fin 0 \<or> overall_score a = NaN))
      \<longrightarrow> overallScore analysisData score = legacy_score score)
   \<and> (overallScore analysisData score \<noteq> legacy_score score
      \<longrightarrow> (\<exists>a. aiScores analysisData = Some a \<and> overall_score a \<noteq> Fin 0
              \<and> overallScore analysisData score = overall_score a))
   \<and> legacy_score None = Fin 0 \<and> legacy_score (Some (Fin 0)) = Fin 0
   \<and> (s \<noteq> Fin 0 \<and> s \<noteq> NaN \<longrightarrow> legacy_score (Some s) = s)
   \<and> overallScore (Some (r\<lparr>ai_analysis_scores := Some (a\<lparr>overall_score := Fin 0\<rparr>)\<rparr>)) score
       = overallScore (Some (r\<lparr>ai_analysis_scores := None\<rparr>)) score
   \<and> overallScore (Some (r\<lparr>ai_analysis_scores := None\<rparr>)) score = overallScore None score"
  by (auto simp: overallScore_def aiScores_def or_default_def or_else_def truthy_def legacy_score_def
      split: option.splits)

theorem overall_score_fallback_witness:
  "overallScore (Some (sample_resume (Some (sample_scores (Fin 82))))) (Some (Fin 55)) = Fin 82
   \<and> overallScore (Some (sample_resume (Some (sample_scores (Fin 0))))) (Some (Fin 55)) = Fin 55
   \<and> overallScore (Some (sample_resume None)) (Some (Fin 55)) = Fin 55
   \<and> overallScore (Some (sample_resume (Some (sample_scores (Fin 0))))) None = Fin 0"
  using overall_score_fallback [where analysisData = "Some (sample_resume (Some (sample_scores (Fin 82))))"
      and a = "sample_scores (Fin 82)" and score = "Some (Fin 55)" and s = "Fin 55"]
    overall_score_fallback [where analysisData = "Some (sample_resume (Some (sample_scores (Fin 0))))"
      and score = "Some (Fin 55)" and s = "Fin 55"]
    overall_score_fallback [where analysisData = "Some (sample_resume None)"
      and score = "Some (Fin 55)" and s = "Fin 55"]
    overall_score_fallback [where analysisData = "Some (sample_resume (Some (sample_scores (Fin 0))))"
      and score = None and s = "Fin 55"]
  by (simp add: aiScores_def sample_resume_def sample_scores_def legacy_score_def)

text \<open>
  C6. A recommendation is among the priority issues if and only if it is one of the match
  result's recommendations and its priority is \<open>critical\<close> or \<open>high\<close>; the count shown is
  the size of that filtered part of the list, in the list's order, and the badge is
  shown only when the count is positive. A recommendation with priority \<open>high\<close> (or
  \<open>critical\<close>) is counted, one with \<open>medium\<close> (or \<open>low\<close>) is not. Neither the match score
  nor the badge colour, score and label of the card's header depend on the
  recommendations.
\<close>

theorem priority_issues_counted:
  "(r \<in> set (prioritySuggestions m) \<longleftrightarrow>
      (\<exists>rs. recommendations m = Some rs \<and> r \<in> set rs
            \<and> (priority r = critical \<or> priority r = high)))
   \<and> length (prioritySuggestions m) =
       size {#r \<in># mset (case recommendations m of None \<Rightarrow> [] | Some rs \<Rightarrow> rs).
               priority r = critical \<or> priority r = high#}
   \<and> subseq (prioritySuggestions m) (case recommendations m of None \<Rightarrow> [] | Some rs \<Rightarrow> rs)
   \<and> priorityBadge m =
       (if prioritySuggestions m = [] then None else Some (length (prioritySuggestions m)))
   \<and> prioritySuggestions (m\<lparr>recommendations := Some [x\<lparr>priority := high\<rparr>]\<rparr>) = [x\<lparr>priority := high\<rparr>]
   \<and> prioritySuggestions (m\<lparr>recommendations := Some [x\<lparr>priority := critical\<rparr>]\<rparr>) = [x\<lparr>priority := critical\<rparr>]
   \<and> prioritySuggestions (m\<lparr>recommendations := Some [x\<lparr>priority := medium\<rparr>]\<rparr>) = []
   \<and> prioritySuggestions (m\<lparr>recommendations := Some [x\<lparr>priority := low\<rparr>]\<rparr>) = []
   \<and> matchHeader (m\<lparr>recommendations := rs'\<rparr>) = matchHeader m
   \<and> match_score (m\<lparr>recommendations := rs'\<rparr>) = match_score m"
proof -
  have "length (prioritySuggestions m) =
       size {#r \<in># mset (case recommendations m of None \<Rightarrow> [] | Some rs \<Rightarrow> rs).
               priority r = critical \<or> priority r = high#}"
    by (cases "recommendations m") (simp_all add: prioritySuggestions_def flip: mset_filter)
  moreover have "subseq (prioritySuggestions m) (case recommendations m of None \<Rightarrow> [] | Some rs \<Rightarrow> rs)"
    by (cases "recommendations m") (simp_all add: prioritySuggestions_def)
  moreover have "r \<in> set (prioritySuggestions m) \<longleftrightarrow>
      (\<exists>rs. recommendations m = Some rs \<and> r \<in> set rs
            \<and> (priority r = critical \<or> priority r = high))"
    by (cases "recommendations m") (auto simp: prioritySuggestions_def)
  moreover have "priorityBadge m =
       (if prioritySuggestions m = [] then None else Some (length (prioritySuggestions m)))"
    by (simp add: priorityBadge_def)
  moreover have "prioritySuggestions (m\<lparr>recommendations := Some [x\<lparr>priority := high\<rparr>]\<rparr>) = [x\<lparr>priority := high\<rparr>]"
    "prioritySuggestions (m\<lparr>recommendations := Some [x\<lparr>priority := critical\<rparr>]\<rparr>) = [x\<lparr>priority := critical\<rparr>]"
    "prioritySuggestions (m\<lparr>recommendations := Some [x\<lparr>priority := medium\<rparr>]\<rparr>) = []"
    "prioritySuggestions (m\<lparr>recommendations := Some [x\<lparr>priority := low\<rparr>]\<rparr>) = []"
    by (simp_all add: prioritySuggestions_def)
  moreover have "matchHeader (m\<lparr>recommendations := rs'\<rparr>) = matchHeader m"
    "match_score (m\<lparr>recommendations := rs'\<rparr>) = match_score m"
    by (simp_all add: matchHeader_def)
  ultimately show ?thesis by (intro conjI)
qed

text \<open>
  A run: of a \<open>high\<close> and a \<open>medium\<close> recommendation the first is a priority issue, the
  second is not, and the badge shows 1.
\<close>

theorem priority_issues_counted_witness:
  "prioritySuggestions (sample_match 95) = [sample_suggestion high]
   \<and> priorityBadge (sample_match 95) = Some 1
   \<and> sample_suggestion medium \<notin> set (prioritySuggestions (sample_match 95))"
  using priority_issues_counted [of "sample_suggestion medium" "sample_match 95"]
    priority_issues_counted [of "sample_suggestion high" "sample_match 95"]
  by (simp add: sample_match_def sample_suggestion_def prioritySuggestions_def)

section \<open>Properties of the score histogram\<close>

lemma bucket_one:
  "js_ge s (Fin 0) \<Longrightarrow> js_le s (Fin 100) \<Longrightarrow>
   (if in_bucket Excellent s then 1 else 0) + (if in_bucket Good s then 1 else 0)
   + (if in_bucket Fair s then 1 else 0) + (if in_bucket Poor s then 1 else (0::nat)) = 1"
  by (cases s) (auto simp: in_bucket_def js_le_def)

lemma bucket_counts_sum:
  "(\<forall>m \<in> set results. js_ge (match_score m) (Fin 0) \<and> js_le (match_score m) (Fin 100)) \<Longrightarrow>
   bucket_count Excellent results + bucket_count Good results
   + bucket_count Fair results + bucket_count Poor results = length results"
proof (induction results)
  case Nil
  show ?case by (simp add: bucket_count_def)
next
  case (Cons m results)
  then have IH: "bucket_count Excellent results + bucket_count Good results
     + bucket_count Fair results + bucket_count Poor results = length results"
    and r: "js_ge (match_score m) (Fin 0)" "js_le (match_score m) (Fin 100)" by simp_all
  have step: "bucket_count b (m # results) =
      (if in_bucket b (match_score m) then 1 else 0) + bucket_count b results" for b
    by (simp add: bucket_count_def)
  from bucket_one [OF r] IH show ?case unfolding step by simp
qed

lemma bucket_unique:
  assumes "js_ge s (Fin 0)" "js_le s (Fin 100)"
  shows "\<exists>!b. in_bucket b s"
proof (cases s)
  case (Fin q)
  with assms have q: "0 \<le> q" "q \<le> 100" by (simp_all add: js_le_def)
  have ex: "\<exists>b. in_bucket b s"
  proof -
    have "in_bucket Excellent s \<or> in_bucket Good s \<or> in_bucket Fair s \<or> in_bucket Poor s"
      using q Fin by (auto simp: in_bucket_def js_le_def)
    then show ?thesis by blast
  qed
  have un: "in_bucket b s \<Longrightarrow> in_bucket b' s \<Longrightarrow> b = b'" for b b'
    using Fin by (cases b; cases b') (auto simp: in_bucket_def js_le_def)
  from ex un show ?thesis by blast
qed (use assms in \<open>simp_all add: js_le_def\<close>)

text \<open>
  C2. A finite score is in \<open>excellent\<close> iff it lies in [90,100], in \<open>good\<close> iff in [75,90), in
  \<open>fair\<close> iff in [60,75) and in \<open>poor\<close> iff below 60. Every score in [0,100] is in exactly
  one bucket, the four counts of match results with scores in [0,100] sum to their
  number, and the scores 95, 72, 40 give one excellent, no good, one fair and one poor.
\<close>

theorem score_buckets_partition:
  "(in_bucket Excellent (Fin q) \<longleftrightarrow> 90 \<le> q \<and> q \<le> 100)
   \<and> (in_bucket Good (Fin q) \<longleftrightarrow> 75 \<le> q \<and> q < 90)
   \<and> (in_bucket Fair (Fin q) \<longleftrightarrow> 60 \<le> q \<and> q < 75)
   \<and> (in_bucket Poor (Fin q) \<longleftrightarrow> q < 60)
   \<and> (js_ge s (Fin 0) \<and> js_le s (Fin 100) \<longrightarrow> (\<exists>!b. in_bucket b s))
   \<and> ((\<forall>m \<in> set results. js_ge (match_score m) (Fin 0) \<and> js_le (match_score m) (Fin 100)) \<longrightarrow>
        excellent (bucket_histogram results) + good (bucket_histogram results)
        + fair (bucket_histogram results) + poor (bucket_histogram results) = length results)
   \<and> bucket_histogram [sample_match 95, sample_match 72, sample_match 40]
       = \<lparr>excellent = 1, good = 0, fair = 1, poor = 1\<rparr>"
proof -
  have "bucket_histogram [sample_match 95, sample_match 72, sample_match 40]
       = \<lparr>excellent = 1, good = 0, fair = 1, poor = 1\<rparr>"
    by (simp add: bucket_histogram_def bucket_count_def in_bucket_def sample_match_def js_le_def)
  moreover have "(in_bucket Excellent (Fin q) \<longleftrightarrow> 90 \<le> q \<and> q \<le> 100)"
    "(in_bucket Good (Fin q) \<longleftrightarrow> 75 \<le> q \<and> q < 90)"
    "(in_bucket Fair (Fin q) \<longleftrightarrow> 60 \<le> q \<and> q < 75)"
    "(in_bucket Poor (Fin q) \<longleftrightarrow> q < 60)"
    by (simp_all add: in_bucket_def js_le_def)
  moreover have "js_ge s (Fin 0) \<and> js_le s (Fin 100) \<longrightarrow> (\<exists>!b. in_bucket b s)"
    using bucket_unique by blast
  moreover have "(\<forall>m \<in> set results. js_ge (match_score m) (Fin 0) \<and> js_le (match_score m) (Fin 100)) \<longrightarrow>
        excellent (bucket_histogram results) + good (bucket_histogram results)
        + fair (bucket_histogram results) + poor (bucket_histogram results) = length results"
    using bucket_counts_sum [of results] by (simp add: bucket_histogram_def)
  ultimately show ?thesis by (intro conjI)
qed

theorem score_buckets_partition_witness:
  "excellent (bucket_histogram [sample_match 95, sample_match 72, sample_match 40])
     + good (bucket_histogram [sample_match 95, sample_match 72, sample_match 40])
     + fair (bucket_histogram [sample_match 95, sample_match 72, sample_match 40])
     + poor (bucket_histogram [sample_match 95, sample_match 72, sample_match 40]) = 3
   \<and> (\<exists>!b. in_bucket b (Fin 72)) \<and> in_bucket Fair (Fin 72)
   \<and> in_bucket Excellent (Fin 100) \<and> in_bucket Good (Fin 75) \<and> in_bucket Poor (Fin 0)"
proof -
  have r: "\<forall>m \<in> set [sample_match 95, sample_match 72, sample_match 40].
      js_ge (match_score m) (Fin 0) \<and> js_le (match_score m) (Fin 100)"
    by (simp add: sample_match_def js_le_def)
  have s: "js_ge (Fin 72) (Fin 0) \<and> js_le (Fin 72) (Fin 100)" by (simp add: js_le_def)
  from score_buckets_partition [of 72 "Fin 72" "[sample_match 95, sample_match 72, sample_match 40]"]
    score_buckets_partition [of 100 "Fin 72" "[]"] score_buckets_partition [of 75 "Fin 72" "[]"]
    score_buckets_partition [of 0 "Fin 72" "[]"] r s
  show ?thesis by simp
qed

section \<open>Properties of promises\<close>

lemma first_rejection_None: "(\<forall>r \<in> set rs. r = None) \<Longrightarrow> first_rejection order rs = None"
proof -
  assume a: "\<forall>r \<in> set rs. r = None"
  have f: "(if i < length rs then rs ! i else None) = None" for i
    using a by auto
  have "List.map_filter (\<lambda>i. if i < length rs then rs ! i else None) is = []" for "is"
    by (induction "is") (simp_all add: map_filter_simps f)
  then show ?thesis by (simp add: first_rejection_def)
qed

lemma Promise_all_Inr: "Promise_all order (map Inr xs) = Inr xs"
proof -
  have "first_rejection order (map rejection (map Inr xs)) = None"
    by (rule first_rejection_None) (auto simp: rejection_def)
  moreover have "List.map_filter resolution (map Inr xs) = xs"
    by (induction xs) (simp_all add: map_filter_simps resolution_def)
  ultimately show ?thesis by (simp add: Promise_all_def)
qed

lemma Promise_all3_Inr: "Promise_all3 order (Inr a) (Inr b) (Inr c) = Inr (a, b, c)"
proof -
  have "first_rejection order [rejection (Inr a), rejection (Inr b), rejection (Inr c)] = None"
    by (rule first_rejection_None) (auto simp: rejection_def)
  then show ?thesis by (simp add: Promise_all3_def)
qed



lemma first_rejection_head:
  "i < length rs \<Longrightarrow> rs ! i = Some e \<Longrightarrow> first_rejection (i # order) rs = Some e"
  by (simp add: first_rejection_def map_filter_simps)


lemma rejection_simps [simp]:
  "rejection (Inl e) = Some e" "rejection (Inr v) = None"
  by (simp_all add: rejection_def)









section \<open>Properties of the aggregation\<close>

lemma successful_simps [simp]:
  "successful [] = []"
  "successful (None # rs) = successful rs"
  "successful (Some s # rs) = s # successful rs"
  by (simp_all add: successful_def)

lemma matchMap_step_simps [simp]:
  "matchMap_step m None = m"
  "matchMap_step m (Some s) = assign m (jobId s) (match s)"
  by (simp_all add: matchMap_step_def)

lemma entries_simps [simp]:
  "entries [] = []"
  "entries (None # rs) = entries rs"
  "entries (Some s # rs) = (jobId s, match s) # entries rs"
  by (simp_all add: entries_def)

lemma upd_map_add: "m(k \<mapsto> v) ++ n = m ++ ([k \<mapsto> v] ++ n)"
proof -
  have "m ++ ([k \<mapsto> v] ++ n) = (m ++ [k \<mapsto> v]) ++ n"
    by (simp only: map_add_assoc)
  also have "m ++ [k \<mapsto> v] = m(k \<mapsto> v)"
    by (simp only: map_add_upd map_add_empty)
  finally show ?thesis by (rule sym)
qed

lemma match_field_not_Match: "match_field m k \<noteq> Some (Match r)"
  by (auto simp: match_field_def)

lemma inherited_Match_iff:
  "inherited proto k = Match r \<longleftrightarrow> k = ''__proto__'' \<and> proto = Some r"
  by (auto simp: inherited_def split: option.splits)

lemma lookup_Match_iff:
  "lookup obj k = Match r \<longleftrightarrow>
     own obj k = Some r \<or> (own obj k = None \<and> k = ''__proto__'' \<and> prototype obj = Some r)"
proof (cases "own obj k")
  case (Some m)
  then show ?thesis by (simp add: lookup_def)
next
  case None
  show ?thesis
  proof (cases "prototype obj")
    case None
    with \<open>own obj k = None\<close> show ?thesis by (simp add: lookup_def inherited_Match_iff)
  next
    case (Some m)
    show ?thesis
    proof (cases "match_field m k")
      case None
      with Some \<open>own obj k = None\<close> show ?thesis
        by (simp add: lookup_def inherited_Match_iff)
    next
      case (Some v)
      then have "v \<noteq> Match r" using match_field_not_Match [of m k r] by auto
      moreover from Some have "k \<noteq> ''__proto__''"
        by (auto simp: match_field_def split: if_splits)
      ultimately show ?thesis using Some \<open>prototype obj = Some m\<close> \<open>own obj k = None\<close>
        by (simp add: lookup_def)
    qed
  qed
qed

lemma match_results_Some_iff:
  "match_results obj k = Some r \<longleftrightarrow> lookup obj k = Match r"
  by (cases "lookup obj k") (simp_all add: match_results_def)

lemma match_results_eq:
  assumes "own obj ''__proto__'' = None"
  shows "match_results obj = (own obj)(''__proto__'' := prototype obj)"
proof (rule ext)
  fix k
  have iff: "match_results obj k = Some r \<longleftrightarrow> ((own obj)(''__proto__'' := prototype obj)) k = Some r" for r
    unfolding match_results_Some_iff lookup_Match_iff using assms by auto
  show "match_results obj k = ((own obj)(''__proto__'' := prototype obj)) k"
  proof (cases "match_results obj k")
    case None
    have "((own obj)(''__proto__'' := prototype obj)) k = None"
    proof (rule ccontr)
      assume "((own obj)(''__proto__'' := prototype obj)) k \<noteq> None"
      then obtain r where "((own obj)(''__proto__'' := prototype obj)) k = Some r" by blast
      with iff [of r] None show False by simp
    qed
    with None show ?thesis by simp
  next
    case (Some r)
    with iff [of r] show ?thesis by simp
  qed
qed

lemma own_assign_proto: "own obj ''__proto__'' = None \<Longrightarrow> own (assign obj k v) ''__proto__'' = None"
  by (simp add: assign_def)

lemma match_results_assign:
  assumes "own obj ''__proto__'' = None"
  shows "match_results (assign obj k v) = (match_results obj)(k \<mapsto> v)"
proof -
  have "match_results (assign obj k v)
      = (own (assign obj k v))(''__proto__'' := prototype (assign obj k v))"
    by (rule match_results_eq) (rule own_assign_proto [OF assms])
  also have "\<dots> = ((own obj)(''__proto__'' := prototype obj))(k \<mapsto> v)"
    using assms by (auto simp: assign_def)
  also have "\<dots> = (match_results obj)(k \<mapsto> v)"
    by (simp only: match_results_eq [OF assms])
  finally show ?thesis .
qed

lemma foldl_matchMap_step:
  assumes "own obj ''__proto__'' = None"
  shows "own (foldl matchMap_step obj rs) ''__proto__'' = None
    \<and> match_results (foldl matchMap_step obj rs) = match_results obj ++ map_of (rev (entries rs))"
  using assms
proof (induction rs arbitrary: obj)
  case Nil
  then show ?case by simp
next
  case (Cons r rs)
  show ?case
  proof (cases r)
    case None
    with Cons.IH [OF Cons.prems] show ?thesis by simp
  next
    case (Some s)
    let ?obj = "assign obj (jobId s) (match s)"
    have inv: "own ?obj ''__proto__'' = None" by (rule own_assign_proto [OF Cons.prems])
    have IH: "own (foldl matchMap_step ?obj rs) ''__proto__'' = None"
      "match_results (foldl matchMap_step ?obj rs) = match_results ?obj ++ map_of (rev (entries rs))"
      using Cons.IH [OF inv] by simp_all
    have L: "foldl matchMap_step obj (r # rs) = foldl matchMap_step ?obj rs"
      using Some by simp
    have R: "map_of (rev (entries (r # rs))) = [jobId s \<mapsto> match s] ++ map_of (rev (entries rs))"
      using Some by simp
    have "match_results ?obj ++ map_of (rev (entries rs))
        = match_results obj ++ ([jobId s \<mapsto> match s] ++ map_of (rev (entries rs)))"
      unfolding match_results_assign [OF Cons.prems] by (rule upd_map_add)
    then show ?thesis unfolding L R using IH by simp
  qed
qed

lemma own_empty_object: "own empty_object ''__proto__'' = None"
  by (simp add: empty_object_def)

lemma match_results_empty: "match_results empty_object = Map.empty"
  unfolding match_results_eq [OF own_empty_object] by (simp add: empty_object_def)

lemma own_matchMap: "own (matchMap rs) ''__proto__'' = None"
  unfolding matchMap_def using foldl_matchMap_step [OF own_empty_object] by blast

lemma matchMap_map_of: "match_results (matchMap rs) = map_of (rev (entries rs))"
  unfolding matchMap_def using foldl_matchMap_step [OF own_empty_object, of rs]
  by (simp add: match_results_empty)

lemma match_object_eqI:
  assumes "own a ''__proto__'' = None" "own b ''__proto__'' = None"
    and "match_results a = match_results b"
  shows "a = (b :: match_object)"
proof -
  have eq: "(own a)(''__proto__'' := prototype a) = (own b)(''__proto__'' := prototype b)"
    using assms by (simp add: match_results_eq)
  have "prototype a = prototype b"
    using fun_cong [OF eq, of "''__proto__''"] by simp
  moreover have "own a = own b"
  proof (rule ext)
    fix k
    show "own a k = own b k"
      using fun_cong [OF eq, of k] assms(1,2) by (cases "k = ''__proto__''") simp_all
  qed
  ultimately show ?thesis by simp
qed

lemma matchMap_Some_iff:
  assumes "distinct (map jobId (successful rs))"
  shows "match_results (matchMap rs) j = Some r
     \<longleftrightarrow> (\<exists>s \<in> set (successful rs). jobId s = j \<and> match s = r)"
proof -
  have "map fst (rev (entries rs)) = rev (map jobId (successful rs))"
    by (simp add: entries_def rev_map comp_def)
  with assms have "distinct (map fst (rev (entries rs)))" by simp
  then have "map_of (rev (entries rs)) j = Some r \<longleftrightarrow> (j, r) \<in> set (rev (entries rs))"
    by (rule map_of_eq_Some_iff)
  then show ?thesis by (auto simp: matchMap_map_of entries_def)
qed

lemma mset_successful: "mset rs' = mset rs \<Longrightarrow> mset (successful rs') = mset (successful rs)"
  by (simp add: successful_def map_filter_def)

lemma matchMap_perm:
  assumes d: "distinct (map jobId (successful rs))" and p: "mset rs' = mset rs"
  shows "matchMap rs' = matchMap rs"
proof (rule match_object_eqI [OF own_matchMap own_matchMap], rule ext)
  fix j
  have ms: "mset (successful rs') = mset (successful rs)" using p by (rule mset_successful)
  then have "mset (map jobId (successful rs')) = mset (map jobId (successful rs))" by simp
  then have "distinct (map jobId (successful rs')) \<longleftrightarrow> distinct (map jobId (successful rs))"
    by (rule mset_eq_imp_distinct_iff)
  with d have d': "distinct (map jobId (successful rs'))" by blast
  have s: "set (successful rs') = set (successful rs)" using ms by (rule mset_eq_setD)
  have iff: "match_results (matchMap rs') j = Some r \<longleftrightarrow> match_results (matchMap rs) j = Some r" for r
    unfolding matchMap_Some_iff [OF d] matchMap_Some_iff [OF d'] s ..
  show "match_results (matchMap rs') j = match_results (matchMap rs) j"
  proof (cases "match_results (matchMap rs') j")
    case None
    have "match_results (matchMap rs) j = None"
    proof (rule ccontr)
      assume "match_results (matchMap rs) j \<noteq> None"
      then obtain r where "match_results (matchMap rs) j = Some r" by blast
      with iff [of r] have "match_results (matchMap rs') j = Some r" by blast
      with None show False by simp
    qed
    with None show ?thesis by simp
  next
    case (Some r)
    with iff [of r] have "match_results (matchMap rs) j = Some r" by blast
    with Some show ?thesis by simp
  qed
qed

lemma dom_matchMap: "dom (match_results (matchMap rs)) = jobId ` set (successful rs)"
  by (simp add: matchMap_map_of dom_map_of_conv_image_fst entries_def image_image)

text \<open>
  C9. For settled results whose job identifiers are pairwise distinct, the fold yields the
  same object for every permutation of the results. The keys under which a match result
  is read from it are exactly the job identifiers of the successful results, one per
  successful result, and each of these keys reads as that result's match result.
\<close>

theorem match_map_order_independent:
  assumes d: "distinct (map jobId (successful rs))" and p: "mset rs' = mset rs"
  shows "matchMap rs' = matchMap rs
    \<and> dom (match_results (matchMap rs)) = jobId ` set (successful rs)
    \<and> card (dom (match_results (matchMap rs))) = length (successful rs)
    \<and> (\<forall>s \<in> set (successful rs).
          match_results (matchMap rs) (jobId s) = Some (match s)
        \<and> lookup (matchMap rs) (jobId s) = Match (match s))"
proof -
  have "card (jobId ` set (successful rs)) = length (successful rs)"
    using distinct_card [OF d] by simp
  moreover have "\<forall>s \<in> set (successful rs).
          match_results (matchMap rs) (jobId s) = Some (match s)
        \<and> lookup (matchMap rs) (jobId s) = Match (match s)"
    using matchMap_Some_iff [OF d] by (auto simp flip: match_results_Some_iff)
  ultimately show ?thesis using matchMap_perm [OF d p] by (simp add: dom_matchMap)
qed

text \<open>
  A run: the three sample results and their reversal give the same object; two keys read
  as a match result, \<open>j2\<close> as the result with score 40.
\<close>

theorem match_map_order_independent_witness:
  "matchMap (rev sample_settled) = matchMap sample_settled
   \<and> card (dom (match_results (matchMap sample_settled))) = 2
   \<and> match_results (matchMap sample_settled) ''j2'' = Some (sample_match 40)
   \<and> lookup (matchMap sample_settled) ''j2'' = Match (sample_match 40)"
proof -
  have d: "distinct (map jobId (successful sample_settled))"
    by (simp add: sample_settled_def successful_def List.map_filter_simps)
  have p: "mset (rev sample_settled) = mset sample_settled" by simp
  have m: "\<lparr>jobId = ''j2'', match = sample_match 40\<rparr> \<in> set (successful sample_settled)"
    by (simp add: sample_settled_def successful_def List.map_filter_simps)
  have l: "length (successful sample_settled) = 2"
    by (simp add: sample_settled_def successful_def List.map_filter_simps)
  note T = match_map_order_independent [OF d p]
  have 1: "matchMap (rev sample_settled) = matchMap sample_settled"
    using T by (rule conjunct1)
  have "card (dom (match_results (matchMap sample_settled))) = length (successful sample_settled)"
    using T by (rule conjunct2 [THEN conjunct2, THEN conjunct1])
  then have 2: "card (dom (match_results (matchMap sample_settled))) = 2"
    unfolding l .
  have 3: "match_results (matchMap sample_settled) (jobId \<lparr>jobId = ''j2'', match = sample_match 40\<rparr>)
        = Some (match \<lparr>jobId = ''j2'', match = sample_match 40\<rparr>)
      \<and> lookup (matchMap sample_settled) (jobId \<lparr>jobId = ''j2'', match = sample_match 40\<rparr>)
        = Match (match \<lparr>jobId = ''j2'', match = sample_match 40\<rparr>)"
    using T m by blast
  from 1 2 3 show ?thesis by simp
qed

lemma matchPromise_settle: "matchPromise b rid ij = (matchRequest rid (snd ij), Inr (settle b rid ij))"
  by (simp add: matchPromise_def settle_def Let_def split: sum.splits)

lemma initialFetch_eq:
  "initialFetch b rid =
     Inr (case dashboard_outcome b rid of Inl _ \<Rightarrow> None | Inr d \<Rightarrow> Some d,
          fetchedJobs b rid,
          case bulk_outcome b rid of Inl _ \<Rightarrow> None | Inr x \<Rightarrow> Some x)"
  by (simp add: initialFetch_def Promise_all3_Inr or_null_def or_empty_def fetchedJobs_def
      split: sum.splits)

lemma map_zip_upt_snd: "map (\<lambda>ij. f (snd ij)) (zip [0..<length xs] xs) = map f xs"
proof -
  have "map (\<lambda>ij. f (snd ij)) (zip [0..<length xs] xs) = map f (map snd (zip [0..<length xs] xs))"
    by (simp only: map_map comp_def)
  also have "map snd (zip [0..<length xs] xs) = xs"
    by (rule map_snd_zip) simp
  finally show ?thesis .
qed

lemma tryBlock_eq:
  "tryBlock b rid st =
     (None,
      (if fetchedJobs b rid = [] then
         st\<lparr>dashboardData := (case dashboard_outcome b rid of Inl _ \<Rightarrow> None | Inr d \<Rightarrow> Some d),
            recentJobs := take 6 (fetchedJobs b rid),
            bulkAnalysis := (case bulk_outcome b rid of Inl _ \<Rightarrow> None | Inr x \<Rightarrow> Some x)\<rparr>
       else
         st\<lparr>dashboardData := (case dashboard_outcome b rid of Inl _ \<Rightarrow> None | Inr d \<Rightarrow> Some d),
            recentJobs := take 6 (fetchedJobs b rid),
            bulkAnalysis := (case bulk_outcome b rid of Inl _ \<Rightarrow> None | Inr x \<Rightarrow> Some x),
            jobMatches := matchMap (map (settle b rid)
               (zip [0..<length (take 6 (fetchedJobs b rid))] (take 6 (fetchedJobs b rid))))\<rparr>),
      map (matchRequest rid) (take 6 (fetchedJobs b rid)))"
proof -
  let ?zs = "zip [0..<length (take 6 (fetchedJobs b rid))] (take 6 (fetchedJobs b rid))"
  have 1: "map snd (map (matchPromise b rid) ?zs) = map Inr (map (settle b rid) ?zs)"
    by (simp add: matchPromise_settle comp_def)
  have 2: "map fst (map (matchPromise b rid) ?zs) = map (matchRequest rid) (take 6 (fetchedJobs b rid))"
  proof -
    have "map fst (map (matchPromise b rid) ?zs) = map (\<lambda>ij. matchRequest rid (snd ij)) ?zs"
      unfolding map_map by (rule map_cong) (simp_all add: matchPromise_settle)
    also have "\<dots> = map (matchRequest rid) (take 6 (fetchedJobs b rid))"
      by (rule map_zip_upt_snd)
    finally show ?thesis .
  qed
  show ?thesis
    unfolding tryBlock_def initialFetch_eq
    by (simp only: 1 2 Promise_all_Inr Let_def sum.case prod.case) simp
qed

lemma loadDashboardData_eq:
  "loadDashboardData b rid st =
     ((if fetchedJobs b rid = [] then
         st\<lparr>loading := False,
            dashboardData := (case dashboard_outcome b rid of Inl _ \<Rightarrow> None | Inr d \<Rightarrow> Some d),
            recentJobs := take 6 (fetchedJobs b rid),
            bulkAnalysis := (case bulk_outcome b rid of Inl _ \<Rightarrow> None | Inr x \<Rightarrow> Some x)\<rparr>
       else
         st\<lparr>loading := False,
            dashboardData := (case dashboard_outcome b rid of Inl _ \<Rightarrow> None | Inr d \<Rightarrow> Some d),
            recentJobs := take 6 (fetchedJobs b rid),
            bulkAnalysis := (case bulk_outcome b rid of Inl _ \<Rightarrow> None | Inr x \<Rightarrow> Some x),
            jobMatches := matchMap (map (settle b rid)
               (zip [0..<length (take 6 (fetchedJobs b rid))] (take 6 (fetchedJobs b rid))))\<rparr>),
      map (matchRequest rid) (take 6 (fetchedJobs b rid)))"
  unfolding loadDashboardData_def tryBlock_eq by simp

lemma set_successful: "set (successful rs) = {s. Some s \<in> set rs}"
  by (induction rs) (auto simp: successful_def split: option.splits)

lemma jobId_settle: "settle b rid ij = Some s \<Longrightarrow> jobId s = job_id (snd ij)"
  by (auto simp: settle_def split: sum.splits)

lemma jobIds_settled_subset:
  "set (map jobId (successful (map (settle b rid) zs))) \<subseteq> set (map (\<lambda>ij. job_id (snd ij)) zs)"
proof
  fix k
  assume "k \<in> set (map jobId (successful (map (settle b rid) zs)))"
  then obtain s where s: "Some s \<in> set (map (settle b rid) zs)" and k: "k = jobId s"
    by (auto simp: set_successful)
  from s obtain z where z: "z \<in> set zs" and "settle b rid z = Some s" by auto
  then have "jobId s = job_id (snd z)" by (simp add: jobId_settle)
  with k z show "k \<in> set (map (\<lambda>ij. job_id (snd ij)) zs)" by auto
qed

lemma distinct_settled:
  "distinct (map (\<lambda>ij. job_id (snd ij)) zs) \<Longrightarrow> distinct (map jobId (successful (map (settle b rid) zs)))"
proof (induction zs)
  case Nil
  show ?case by simp
next
  case (Cons z zs)
  then have IH: "distinct (map jobId (successful (map (settle b rid) zs)))"
    and new: "job_id (snd z) \<notin> set (map (\<lambda>ij. job_id (snd ij)) zs)" by simp_all
  show ?case
  proof (cases "settle b rid z")
    case None
    with IH show ?thesis by simp
  next
    case (Some s)
    have "jobId s \<notin> set (map jobId (successful (map (settle b rid) zs)))"
      using new jobIds_settled_subset [of b rid zs] jobId_settle [OF Some] by auto
    with IH Some show ?thesis by simp
  qed
qed

lemma set_zip_upt: "set (zip [0..<length xs] xs) = {(i, xs ! i) | i. i < length xs}"
proof -
  have "(\<exists>i. p = ([0..<length xs] ! i, xs ! i) \<and> i < length xs)
    \<longleftrightarrow> (\<exists>i. p = (i, xs ! i) \<and> i < length xs)" for p
    by (metis add_0 nth_upt)
  then show ?thesis by (simp add: set_zip)
qed

lemma settle_Some_iff:
  "(\<exists>s. settle b rid (i, x) = Some s \<and> jobId s = j \<and> match s = r)
     \<longleftrightarrow> (job_id x = j \<and> match_outcome b i (matchRequest rid x) = Inr r)"
  by (cases "match_outcome b i (matchRequest rid x)") (auto simp: settle_def)

text \<open>
  C4. The three initial fetches are isolated from each other: whatever combination of
  them fails, the first \<open>Promise.all\<close> resolves, with null for a failed dashboard or bulk
  fetch and the empty list for a failed job fetch, and with the fetched value of every
  call that succeeded. After the run the dashboard and bulk cells hold these values, the
  job cell holds the first six entries of the job list, no page-level error has been set
  and loading is over.
\<close>

theorem initial_fetches_isolated:
  "initialFetch b rid =
     Inr (case dashboard_outcome b rid of Inl _ \<Rightarrow> None | Inr d \<Rightarrow> Some d,
          case jobs_outcome b rid of Inl _ \<Rightarrow> [] | Inr jobs \<Rightarrow> jobs,
          case bulk_outcome b rid of Inl _ \<Rightarrow> None | Inr x \<Rightarrow> Some x)
   \<and> dashboardData (fst (loadDashboardData b rid st)) =
       (case dashboard_outcome b rid of Inl _ \<Rightarrow> None | Inr d \<Rightarrow> Some d)
   \<and> recentJobs (fst (loadDashboardData b rid st)) =
       take 6 (case jobs_outcome b rid of Inl _ \<Rightarrow> [] | Inr jobs \<Rightarrow> jobs)
   \<and> bulkAnalysis (fst (loadDashboardData b rid st)) =
       (case bulk_outcome b rid of Inl _ \<Rightarrow> None | Inr x \<Rightarrow> Some x)
   \<and> error (fst (loadDashboardData b rid st)) = error st
   \<and> loading (fst (loadDashboardData b rid st)) = False"
  unfolding loadDashboardData_eq initialFetch_eq by (simp add: fetchedJobs_def)

text \<open>
  A run: in the scenario backend the bulk analysis fails and the other two fetches
  succeed; the bulk cell is null, the other cells hold what was fetched.
\<close>

theorem initial_fetches_isolated_witness:
  "dashboardData (fst (loadDashboardData scenario_backend ''r1'' initialState)) = Some ()
   \<and> bulkAnalysis (fst (loadDashboardData scenario_backend ''r1'' initialState)) = None
   \<and> recentJobs (fst (loadDashboardData scenario_backend ''r1'' initialState))
       = [sample_job ''j1'' ''Engineer'', sample_job ''j2'' ''Analyst'']
   \<and> error (fst (loadDashboardData scenario_backend ''r1'' initialState)) = None
   \<and> loading (fst (loadDashboardData scenario_backend ''r1'' initialState)) = False"
  using initial_fetches_isolated [of scenario_backend "''r1''" initialState]
  by (simp add: scenario_backend_def initialState_def)



lemma jobMatches_loaded:
  "fetchedJobs b rid \<noteq> [] \<Longrightarrow>
   jobMatches (fst (loadDashboardData b rid st)) =
     matchMap (map (settle b rid)
       (zip [0..<length (take 6 (fetchedJobs b rid))] (take 6 (fetchedJobs b rid))))"
  unfolding loadDashboardData_eq by simp

lemma loaded_results_iff:
  assumes ne: "fetchedJobs b rid \<noteq> []"
    and d: "distinct (map job_id (take 6 (fetchedJobs b rid)))"
  shows "match_results (jobMatches (fst (loadDashboardData b rid st))) j = Some r \<longleftrightarrow>
           (\<exists>i < length (take 6 (fetchedJobs b rid)).
               job_id (take 6 (fetchedJobs b rid) ! i) = j
             \<and> match_outcome b i (matchRequest rid (take 6 (fetchedJobs b rid) ! i)) = Inr r)"
proof -
  let ?kept = "take 6 (fetchedJobs b rid)"
  let ?zs = "zip [0..<length ?kept] ?kept"
  let ?rs = "map (settle b rid) ?zs"
  have "map (\<lambda>ij. job_id (snd ij)) ?zs = map job_id ?kept" by (rule map_zip_upt_snd)
  with d have "distinct (map (\<lambda>ij. job_id (snd ij)) ?zs)" by simp
  then have dd: "distinct (map jobId (successful ?rs))" by (rule distinct_settled)
  have zs: "set ?zs = {(i, ?kept ! i) | i. i < length ?kept}"
    by (rule set_zip_upt)
  have "match_results (matchMap ?rs) j = Some r
      \<longleftrightarrow> (\<exists>s. Some s \<in> set ?rs \<and> jobId s = j \<and> match s = r)"
    unfolding matchMap_Some_iff [OF dd] set_successful by blast
  also have "\<dots> \<longleftrightarrow> (\<exists>i < length ?kept. \<exists>s. settle b rid (i, ?kept ! i) = Some s \<and> jobId s = j \<and> match s = r)"
    unfolding set_map zs by force
  also have "\<dots> \<longleftrightarrow> (\<exists>i < length ?kept. job_id (?kept ! i) = j
       \<and> match_outcome b i (matchRequest rid (?kept ! i)) = Inr r)"
    by (simp only: settle_Some_iff)
  finally show ?thesis unfolding jobMatches_loaded [OF ne] .
qed

lemma loaded_prototype:
  assumes ne: "fetchedJobs b rid \<noteq> []"
    and d: "distinct (map job_id (take 6 (fetchedJobs b rid)))"
    and np: "\<forall>job \<in> set (take 6 (fetchedJobs b rid)). job_id job \<notin> set Object_prototype_names"
  shows "prototype (jobMatches (fst (loadDashboardData b rid st))) = None"
proof (rule ccontr)
  let ?jm = "jobMatches (fst (loadDashboardData b rid st))"
  assume "prototype ?jm \<noteq> None"
  then obtain r where r: "prototype ?jm = Some r" by blast
  have inv: "own ?jm ''__proto__'' = None"
    unfolding jobMatches_loaded [OF ne] by (rule own_matchMap)
  have "match_results ?jm ''__proto__'' = Some r"
    unfolding match_results_eq [OF inv] using r by simp
  then obtain i where "i < length (take 6 (fetchedJobs b rid))"
    "job_id (take 6 (fetchedJobs b rid) ! i) = ''__proto__''"
    unfolding loaded_results_iff [OF ne d] by blast
  with np have "''__proto__'' \<notin> set Object_prototype_names"
    by (metis nth_mem)
  then show False by (simp add: Object_prototype_names_def)
qed

lemma distinct_map_nth_eq:
  assumes "distinct (map f xs)" "i < length xs" "j < length xs" "f (xs ! i) = f (xs ! j)"
  shows "i = j"
proof -
  have "map f xs ! i = map f xs ! j" using assms by simp
  moreover have "i < length (map f xs)" "j < length (map f xs)" using assms by simp_all
  ultimately show ?thesis using assms(1) by (simp only: nth_eq_iff_index_eq)
qed

lemma loaded_lookup:
  assumes ne: "fetchedJobs b rid \<noteq> []"
    and d: "distinct (map job_id (take 6 (fetchedJobs b rid)))"
    and np: "\<forall>job \<in> set (take 6 (fetchedJobs b rid)). job_id job \<notin> set Object_prototype_names"
    and i: "i < length (take 6 (fetchedJobs b rid))"
  shows "lookup (jobMatches (fst (loadDashboardData b rid st)))
           (job_id (take 6 (fetchedJobs b rid) ! i)) =
         (case match_outcome b i (matchRequest rid (take 6 (fetchedJobs b rid) ! i)) of
            Inr m \<Rightarrow> Match m | Inl e \<Rightarrow> No_property)"
proof -
  let ?kept = "take 6 (fetchedJobs b rid)"
  let ?jm = "jobMatches (fst (loadDashboardData b rid st))"
  let ?k = "job_id (?kept ! i)"
  have k: "?k \<notin> set Object_prototype_names" using np i by (metis nth_mem)
  then have kp: "?k \<noteq> ''__proto__''" by (auto simp: Object_prototype_names_def)
  have p: "prototype ?jm = None" by (rule loaded_prototype [OF ne d np])
  show ?thesis
  proof (cases "match_outcome b i (matchRequest rid (?kept ! i))")
    case (Inr m)
    with i have "match_results ?jm ?k = Some m"
      unfolding loaded_results_iff [OF ne d] by blast
    then show ?thesis using Inr by (simp add: match_results_Some_iff)
  next
    case (Inl e)
    have "own ?jm ?k = None"
    proof (rule ccontr)
      assume "own ?jm ?k \<noteq> None"
      then obtain r where "own ?jm ?k = Some r" by blast
      then have "lookup ?jm ?k = Match r" by (simp add: lookup_Match_iff)
      then have "match_results ?jm ?k = Some r" by (simp add: match_results_Some_iff)
      then obtain i' where i': "i' < length ?kept" "job_id (?kept ! i') = ?k"
        "match_outcome b i' (matchRequest rid (?kept ! i')) = Inr r"
        unfolding loaded_results_iff [OF ne d] by blast
      have "i' = i" by (rule distinct_map_nth_eq [OF d i'(1) i i'(2)])
      with i' Inl show False by simp
    qed
    then show ?thesis using Inl p k kp by (simp add: lookup_def inherited_def)
  qed
qed

lemma scenario_jobs: "fetchedJobs scenario_backend ''r1'' = [sample_job ''j1'' ''Engineer'', sample_job ''j2'' ''Analyst'']"
  by (simp add: fetchedJobs_def scenario_backend_def)


text \<open>
  C1 (as amended). When at least one job was fetched, the identifiers of the first six
  jobs are pairwise distinct and none of them is the name of a member of
  \<open>Object.prototype\<close>, then for every outcome of the per-job requests (any of them may
  fail) the final map holds exactly the successful results: a key reads as a match result
  if and only if the request of a kept job with that identifier succeeded with that
  result; the own entries of the map are the same; its prototype is still
  \<open>Object.prototype\<close>; the identifier of a kept job reads as the result of its request
  when that succeeded and as \<open>undefined\<close> when it failed. The failures set no page-level
  error.
\<close>

theorem match_map_holds_successes:
  assumes ne: "fetchedJobs b rid \<noteq> []"
    and d: "distinct (map job_id (take 6 (fetchedJobs b rid)))"
    and np: "\<forall>job \<in> set (take 6 (fetchedJobs b rid)). job_id job \<notin> set Object_prototype_names"
  shows "(lookup (jobMatches (fst (loadDashboardData b rid st))) j = Match r \<longleftrightarrow>
           (\<exists>i < length (take 6 (fetchedJobs b rid)).
               job_id (take 6 (fetchedJobs b rid) ! i) = j
             \<and> match_outcome b i (matchRequest rid (take 6 (fetchedJobs b rid) ! i)) = Inr r))
         \<and> (own (jobMatches (fst (loadDashboardData b rid st))) j = Some r \<longleftrightarrow>
           (\<exists>i < length (take 6 (fetchedJobs b rid)).
               job_id (take 6 (fetchedJobs b rid) ! i) = j
             \<and> match_outcome b i (matchRequest rid (take 6 (fetchedJobs b rid) ! i)) = Inr r))
         \<and> prototype (jobMatches (fst (loadDashboardData b rid st))) = None
         \<and> (\<forall>i < length (take 6 (fetchedJobs b rid)).
              lookup (jobMatches (fst (loadDashboardData b rid st)))
                (job_id (take 6 (fetchedJobs b rid) ! i)) =
              (case match_outcome b i (matchRequest rid (take 6 (fetchedJobs b rid) ! i)) of
                 Inr m \<Rightarrow> Match m | Inl e \<Rightarrow> No_property))
         \<and> error (fst (loadDashboardData b rid st)) = error st"
proof -
  let ?jm = "jobMatches (fst (loadDashboardData b rid st))"
  have p: "prototype ?jm = None" by (rule loaded_prototype [OF ne d np])
  have 1: "lookup ?jm j = Match r \<longleftrightarrow>
           (\<exists>i < length (take 6 (fetchedJobs b rid)).
               job_id (take 6 (fetchedJobs b rid) ! i) = j
             \<and> match_outcome b i (matchRequest rid (take 6 (fetchedJobs b rid) ! i)) = Inr r)"
    using loaded_results_iff [OF ne d, of st j r] by (simp add: match_results_Some_iff)
  have "own ?jm j = Some r \<longleftrightarrow> lookup ?jm j = Match r"
    using p by (auto simp: lookup_Match_iff)
  with 1 have 2: "own ?jm j = Some r \<longleftrightarrow>
           (\<exists>i < length (take 6 (fetchedJobs b rid)).
               job_id (take 6 (fetchedJobs b rid) ! i) = j
             \<and> match_outcome b i (matchRequest rid (take 6 (fetchedJobs b rid) ! i)) = Inr r)"
    by simp
  have 3: "\<forall>i < length (take 6 (fetchedJobs b rid)).
              lookup ?jm (job_id (take 6 (fetchedJobs b rid) ! i)) =
              (case match_outcome b i (matchRequest rid (take 6 (fetchedJobs b rid) ! i)) of
                 Inr m \<Rightarrow> Match m | Inl e \<Rightarrow> No_property)"
    using loaded_lookup [OF ne d np] by blast
  have 4: "error (fst (loadDashboardData b rid st)) = error st"
    unfolding loadDashboardData_eq by simp
  from 1 2 p 3 4 show ?thesis by (intro conjI)
qed

text \<open>
  The scenario of the specification: \<open>j1\<close> succeeds and \<open>j2\<close> fails with status 500; the
  map holds the result of \<open>j1\<close>, \<open>j2\<close> is absent and no page-level error is set.
\<close>

theorem match_map_holds_successes_witness:
  "lookup (jobMatches (fst (loadDashboardData scenario_backend ''r1'' initialState))) ''j1''
     = Match (sample_match 95)
   \<and> lookup (jobMatches (fst (loadDashboardData scenario_backend ''r1'' initialState))) ''j2''
     = No_property
   \<and> own (jobMatches (fst (loadDashboardData scenario_backend ''r1'' initialState))) ''j2'' = None
   \<and> error (fst (loadDashboardData scenario_backend ''r1'' initialState)) = None"
proof -
  let ?jm = "jobMatches (fst (loadDashboardData scenario_backend ''r1'' initialState))"
  let ?kept = "take 6 (fetchedJobs scenario_backend ''r1'')"
  have ne: "fetchedJobs scenario_backend ''r1'' \<noteq> []" by (simp add: scenario_jobs)
  have d: "distinct (map job_id ?kept)"
    by (simp add: scenario_jobs sample_job_def)
  have np: "\<forall>job \<in> set ?kept. job_id job \<notin> set Object_prototype_names"
    by (simp add: scenario_jobs sample_job_def Object_prototype_names_def)
  note T = match_map_holds_successes [OF ne d np, of initialState]
  have k: "?kept = [sample_job ''j1'' ''Engineer'', sample_job ''j2'' ''Analyst'']"
    by (simp add: scenario_jobs)
  have id1: "job_id (sample_job ''j1'' ''Engineer'') = ''j1''"
    and id2: "job_id (sample_job ''j2'' ''Analyst'') = ''j2''"
    by (simp_all add: sample_job_def)
  have o0: "match_outcome scenario_backend 0 (matchRequest ''r1'' (sample_job ''j1'' ''Engineer''))
      = Inr (sample_match 95)"
    by (simp add: scenario_backend_def matchRequest_def sample_job_def)
  have o1: "match_outcome scenario_backend (Suc 0) (matchRequest ''r1'' (sample_job ''j2'' ''Analyst''))
      = Inl (Error ''Match analysis failed: 500 - Internal Server Error'')"
    by (simp add: scenario_backend_def matchRequest_def sample_job_def)
  have all: "\<forall>i < length ?kept. lookup ?jm (job_id (?kept ! i)) =
      (case match_outcome scenario_backend i (matchRequest ''r1'' (?kept ! i)) of
         Inr m \<Rightarrow> Match m | Inl e \<Rightarrow> No_property)"
    using T [of "''j1''" "sample_match 95"] by blast
  have 1: "lookup ?jm ''j1'' = Match (sample_match 95)"
    using all [rule_format, of 0] unfolding k by (simp add: id1 o0)
  have 2: "lookup ?jm ''j2'' = No_property"
    using all [rule_format, of 1] unfolding k by (simp add: id2 o1)
  have "own ?jm ''j2'' \<noteq> Some r" for r
    using 2 by (auto simp add: lookup_def)
  then have 3: "own ?jm ''j2'' = None" by (cases "own ?jm ''j2''") auto
  have 4: "error (fst (loadDashboardData scenario_backend ''r1'' initialState)) = None"
    using T [of "''j1''" "sample_match 95"] by (simp add: initialState_def)
  from 1 2 3 4 show ?thesis by (intro conjI)
qed

text \<open>
  C1 as stated fails in two ways. With the job identifiers \<open>j1\<close>, \<open>j1\<close>, \<open>j2\<close> the first
  request succeeds with score 95, but the map holds the second request's result (score
  40) under \<open>j1\<close>. With the job identifiers \<open>__proto__\<close> and \<open>constructor\<close> the request of
  \<open>constructor\<close> fails, yet the key reads as the inherited \<open>Object.prototype.constructor\<close>
  and a card is rendered for the job; the request of \<open>__proto__\<close> succeeds, yet the map
  gets no entry of its own (the assignment sets the prototype).
\<close>

theorem repeated_job_id_counterexample:
  "match_outcome repeated_backend 0 (matchRequest ''r1'' (fetchedJobs repeated_backend ''r1'' ! 0))
     = Inr (sample_match 95)
   \<and> job_id (fetchedJobs repeated_backend ''r1'' ! 0) = ''j1''
   \<and> lookup (jobMatches (fst (loadDashboardData repeated_backend ''r1'' initialState))) ''j1''
     = Match (sample_match 40)
   \<and> sample_match 40 \<noteq> sample_match 95
   \<and> job_id (fetchedJobs inherited_backend ''r1'' ! 1) = ''constructor''
   \<and> match_outcome inherited_backend 1
        (matchRequest ''r1'' (fetchedJobs inherited_backend ''r1'' ! 1))
     = Inl (Error ''Match analysis failed: 500 - Internal Server Error'')
   \<and> lookup (jobMatches (fst (loadDashboardData inherited_backend ''r1'' initialState)))
        ''constructor''
     = Builtin ''constructor''
   \<and> map (\<lambda>card. job_id (fst card))
        (matchCards (fst (loadDashboardData inherited_backend ''r1'' initialState)))
     = [''__proto__'', ''constructor'']
   \<and> job_id (fetchedJobs inherited_backend ''r1'' ! 0) = ''__proto__''
   \<and> match_outcome inherited_backend 0
        (matchRequest ''r1'' (fetchedJobs inherited_backend ''r1'' ! 0))
     = Inr (sample_match 95)
   \<and> own (jobMatches (fst (loadDashboardData inherited_backend ''r1'' initialState)))
        ''__proto__''
     = None"
  by code_simp




section \<open>Properties of the API client\<close>
















end
